theory Spec2Isabelle
  imports Main "HOL-Library.Word"
begin

section \<open>The WebSocket SSL client of \<^verbatim>\<open>websocket_client_sync_ssl.cpp\<close>\<close>

text \<open>
  The program resolves a host, connects, sets the SNI name, performs the TLS handshake and
  the WebSocket upgrade, sends one message, reads one, closes, and prints what it read. It
  does so twice: in \<^verbatim>\<open>sync_test\<close> with blocking calls and in \<^verbatim>\<open>async_test\<close> as a
  coroutine. Everything the two functions do is a call into Asio, Beast, OpenSSL or the
  console, so the model is a function from the behaviour of those collaborators (a
  \<open>world\<close>) to the sequence of calls the function makes, each with its arguments and
  with what came back (a \<open>trace\<close>).
\<close>

subsection \<open>Values exchanged with the libraries\<close>

text \<open>\<^verbatim>\<open>boost::system::error_code\<close>: an integer and the category that interprets it.\<close>

datatype category =
  System_category | Misc_category | Ssl_category | Http_category | Websocket_category

record error_code =
  ec_value :: int
  ec_category :: category

text \<open>\<^verbatim>\<open>if (ec)\<close>: an error code converts to true when its value is not zero.\<close>

definition failed :: "error_code \<Rightarrow> bool" where
  "failed ec = (ec_value ec \<noteq> 0)"

text \<open>
  Every exception the libraries throw is a \<^verbatim>\<open>boost::system::system_error\<close>, which derives
  from \<^verbatim>\<open>std::exception\<close>; the handlers of the program read nothing but \<^verbatim>\<open>what()\<close>.
\<close>

datatype exception = Std_exception string

fun what :: "exception \<Rightarrow> string" where
  "what (Std_exception s) = s"

datatype 'a outcome = Returns 'a | Throws exception

text \<open>\<^verbatim>\<open>tcp::endpoint\<close>; \<^verbatim>\<open>port()\<close> is an \<^verbatim>\<open>unsigned short\<close>.\<close>

record endpoint =
  ep_address :: string
  ep_port :: "16 word"

text \<open>
  \<^verbatim>\<open>websocket::request_type\<close>, as far as the program determines it: the request target,
  the Host field and the User-Agent field (absent until something sets it).
\<close>

record request_type =
  req_target :: string
  req_host :: string
  req_user_agent :: "string option"

text \<open>\<^verbatim>\<open>websocket::response_type\<close>, by the text that \<^verbatim>\<open>operator<<\<close> prints for it.\<close>

type_synonym response_type = string

text \<open>\<^verbatim>\<open>websocket::close_code\<close>, an enumeration over \<^verbatim>\<open>std::uint16_t\<close>.\<close>

type_synonym close_code = "16 word"

definition normal :: close_code where
  "normal = 1000"

definition EXIT_SUCCESS :: int where
  "EXIT_SUCCESS = 0"

definition EXIT_FAILURE :: int where
  "EXIT_FAILURE = 1"

subsection \<open>Calls, replies and traces\<close>

datatype call =
    Resolve string string
  | Connect "endpoint list"
  | SSL_set_tlsext_host_name string
  | Ssl_handshake
  | Ws_handshake request_type
  | Ws_write string
  | Ws_read
  | Ws_close close_code
  | Println string
  | Cerr string
  | Load_root_certificates

datatype reply =
    Done
  | Endpoints "endpoint list"
  | Connected endpoint
  | Status int
  | Upgrade error_code response_type
  | Message string
  | Raised exception

type_synonym trace = "(call \<times> reply) list"

text \<open>
  The collaborators. \<open>resolve\<close>, \<open>connect\<close>, \<open>ssl_handshake\<close>, \<open>ws_write\<close>, \<open>ws_read\<close>
  and \<open>ws_close\<close> are the throwing overloads (and the \<^verbatim>\<open>use_awaitable\<close> operations, which
  throw in the coroutine); \<open>ws_handshake\<close> is the overload with an \<^verbatim>\<open>error_code&\<close>
  parameter (\<^verbatim>\<open>redirect_error\<close> in the coroutine), which reports every failure in the
  error code and fills in the response. What the peer sends next may depend on what it was
  sent, so \<open>ws_read\<close> is given the messages written on the connection so far.
  \<open>message\<close> is \<^verbatim>\<open>error_code::message()\<close>; \<open>BOOST_BEAST_VERSION_STRING\<close> is the macro
  of \<^verbatim>\<open>boost/beast/version.hpp\<close>.
\<close>

record world =
  resolve :: "string \<Rightarrow> string \<Rightarrow> endpoint list outcome"
  connect :: "endpoint list \<Rightarrow> endpoint outcome"
  set_tlsext_host_name :: "string \<Rightarrow> int"
  ERR_get_error :: "64 word"
  ssl_handshake :: "unit outcome"
  ws_handshake :: "request_type \<Rightarrow> error_code \<times> response_type"
  ws_write :: "string \<Rightarrow> unit outcome"
  ws_read :: "string list \<Rightarrow> string outcome"
  ws_close :: "close_code \<Rightarrow> unit outcome"
  message :: "error_code \<Rightarrow> string"
  BOOST_BEAST_VERSION_STRING :: string

text \<open>
  A computation extends the trace and either returns a value or leaves with an exception
  (\<open>Inl\<close>), in which case the rest of the block is skipped.
\<close>

type_synonym 'a io = "trace \<Rightarrow> (exception + 'a) \<times> trace"

definition return_io :: "'a \<Rightarrow> 'a io" where
  "return_io x tr = (Inr x, tr)"

definition throw_io :: "exception \<Rightarrow> 'a io" where
  "throw_io e tr = (Inl e, tr)"

definition bind_io :: "'a io \<Rightarrow> ('a \<Rightarrow> 'b io) \<Rightarrow> 'b io" where
  "bind_io m f tr = (case m tr of (Inl e, tr') \<Rightarrow> (Inl e, tr') | (Inr x, tr') \<Rightarrow> f x tr')"

definition invoke :: "call \<Rightarrow> ('a \<Rightarrow> reply) \<Rightarrow> 'a outcome \<Rightarrow> 'a io" where
  "invoke c r res tr =
     (case res of
        Returns x \<Rightarrow> (Inr x, tr @ [(c, r x)])
      | Throws e \<Rightarrow> (Inl e, tr @ [(c, Raised e)]))"

text \<open>The messages written so far, in order.\<close>

fun written :: "trace \<Rightarrow> string list" where
  "written [] = []"
| "written ((Ws_write m, Done) # tr) = m # written tr"
| "written (_ # tr) = written tr"

definition read_io :: "world \<Rightarrow> string io" where
  "read_io w tr = invoke Ws_read Message (ws_read w (written tr)) tr"

subsection \<open>Helpers of the standard library\<close>

text \<open>
  \<^verbatim>\<open>console::println\<close> streams its arguments to \<^verbatim>\<open>std::cout\<close> and ends the line, all
  under one lock: one call, one line.
\<close>

definition println :: "string list \<Rightarrow> unit io" where
  "println args = invoke (Println (concat args)) (\<lambda>_. Done) (Returns ())"

text \<open>\<^verbatim>\<open>std::string::c_str\<close> read as a C string: the characters before the first NUL.\<close>

definition c_str :: "string \<Rightarrow> string" where
  "c_str s = takeWhile (\<lambda>c. c \<noteq> CHR 0x00) s"

text \<open>\<^verbatim>\<open>std::to_string\<close> of a non-negative integer: its decimal digits.\<close>

definition digit :: "nat \<Rightarrow> char" where
  "digit d = ''0123456789'' ! d"

fun to_string :: "nat \<Rightarrow> string" where
  "to_string n = (if n < 10 then [digit n] else to_string (n div 10) @ [digit (n mod 10)])"

declare to_string.simps [simp del]

text \<open>
  \<^verbatim>\<open>beast::system_error(ec, what_arg)\<close>: \<^verbatim>\<open>what()\<close> is the argument, a colon and the
  message of the code.
\<close>

definition system_error :: "world \<Rightarrow> error_code \<Rightarrow> string \<Rightarrow> exception" where
  "system_error w ec what_arg = Std_exception (what_arg @ '': '' @ message w ec)"

text \<open>
  The request that \<^verbatim>\<open>stream::handshake(response, host, target, ec)\<close> sends: Beast fills
  in the target and the Host field from its arguments and then applies the decorator set
  with \<^verbatim>\<open>set_option\<close>.
\<close>

definition build_request ::
  "(request_type \<Rightarrow> request_type) \<Rightarrow> string \<Rightarrow> string \<Rightarrow> request_type" where
  "build_request decorator host target =
     decorator \<lparr>req_target = target, req_host = host, req_user_agent = None\<rparr>"

definition handshake_io ::
  "world \<Rightarrow> (request_type \<Rightarrow> request_type) \<Rightarrow> string \<Rightarrow> string
     \<Rightarrow> (error_code \<times> response_type) io" where
  "handshake_io w decorator host target =
     (let req = build_request decorator host target
      in invoke (Ws_handshake req) (\<lambda>(ec, response). Upgrade ec response)
           (Returns (ws_handshake w req)))"

subsection \<open>\<^verbatim>\<open>sync_test\<close>\<close>

text \<open>The decorator of lines 91 to 95.\<close>

definition sync_decorator :: "world \<Rightarrow> request_type \<Rightarrow> request_type" where
  "sync_decorator w req =
     req\<lparr>req_user_agent := Some (BOOST_BEAST_VERSION_STRING w @ '' websocket-client-coro'')\<rparr>"

text \<open>
  The \<^verbatim>\<open>try\<close> block of \<^verbatim>\<open>sync_test\<close> (lines 62 to 123). Constructing the resolver,
  the stream and the buffer does no I/O and leaves no event; \<^verbatim>\<open>ERR_get_error\<close> is read
  only to build the exception.
\<close>

definition sync_test_body ::
  "world \<Rightarrow> string \<Rightarrow> string \<Rightarrow> string \<Rightarrow> string \<Rightarrow> unit io" where
  "sync_test_body w host port path text =
     bind_io (invoke (Resolve host port) Endpoints (resolve w host port)) (\<lambda>results.
     bind_io (invoke (Connect results) Connected (connect w results)) (\<lambda>ep.
     bind_io (invoke (SSL_set_tlsext_host_name (c_str host)) Status
                (Returns (set_tlsext_host_name w (c_str host)))) (\<lambda>rc.
     bind_io (if rc = 0
              then throw_io (system_error w
                     \<lparr>ec_value = sint (ucast (ERR_get_error w) :: 32 word),
                      ec_category = Ssl_category\<rparr>
                     ''Failed to set SNI Hostname'')
              else return_io ()) (\<lambda>_.
     let host = host @ CHR '':'' # to_string (unat (ep_port ep)) in
     bind_io (invoke Ssl_handshake (\<lambda>_. Done) (ssl_handshake w)) (\<lambda>_.
     bind_io (handshake_io w (sync_decorator w) host path) (\<lambda>(ec, response).
     bind_io (println [''[sync] '', message w ec]) (\<lambda>_.
     bind_io (println [''[sync] '', response]) (\<lambda>_.
     if failed ec then return_io ()
     else
     bind_io (invoke (Ws_write text) (\<lambda>_. Done) (ws_write w text)) (\<lambda>_.
     bind_io (read_io w) (\<lambda>buffer.
     bind_io (invoke (Ws_close normal) (\<lambda>_. Done) (ws_close w normal)) (\<lambda>_.
     println [''[sync] '', buffer])))))))))))"

text \<open>The function with its handler (lines 124 to 127), started on an empty trace.\<close>

definition sync_test :: "world \<Rightarrow> string \<Rightarrow> string \<Rightarrow> string \<Rightarrow> string \<Rightarrow> trace" where
  "sync_test w host port path text =
     (case sync_test_body w host port path text [] of
        (Inr _, tr) \<Rightarrow> tr
      | (Inl e, tr) \<Rightarrow> snd (println [''[sync] '', ''Error: '', what e] tr))"

subsection \<open>\<^verbatim>\<open>async_test\<close>\<close>

text \<open>The decorator of lines 166 to 170.\<close>

definition async_decorator :: "world \<Rightarrow> request_type \<Rightarrow> request_type" where
  "async_decorator w req =
     req\<lparr>req_user_agent := Some (BOOST_BEAST_VERSION_STRING w @ '' websocket-client-coro'')\<rparr>"

text \<open>
  The \<^verbatim>\<open>try\<close> block of the coroutine (lines 133 to 198). Each \<^verbatim>\<open>co_await\<close> suspends the
  coroutine until the operation has completed and then yields its result or throws, so
  within the coroutine the calls follow each other as in the blocking function.
\<close>

definition async_test_body ::
  "world \<Rightarrow> string \<Rightarrow> string \<Rightarrow> string \<Rightarrow> string \<Rightarrow> unit io" where
  "async_test_body w host port path text =
     bind_io (invoke (Resolve host port) Endpoints (resolve w host port)) (\<lambda>results.
     bind_io (invoke (Connect results) Connected (connect w results)) (\<lambda>ep.
     bind_io (invoke (SSL_set_tlsext_host_name (c_str host)) Status
                (Returns (set_tlsext_host_name w (c_str host)))) (\<lambda>rc.
     bind_io (if rc = 0
              then throw_io (system_error w
                     \<lparr>ec_value = sint (ucast (ERR_get_error w) :: 32 word),
                      ec_category = Ssl_category\<rparr>
                     ''Failed to set SNI Hostname'')
              else return_io ()) (\<lambda>_.
     let host = host @ CHR '':'' # to_string (unat (ep_port ep)) in
     bind_io (invoke Ssl_handshake (\<lambda>_. Done) (ssl_handshake w)) (\<lambda>_.
     bind_io (handshake_io w (async_decorator w) host path) (\<lambda>(ec, response).
     bind_io (println [''[async] '', message w ec]) (\<lambda>_.
     bind_io (println [''[async] '', response]) (\<lambda>_.
     if failed ec then return_io ()
     else
     bind_io (invoke (Ws_write text) (\<lambda>_. Done) (ws_write w text)) (\<lambda>_.
     bind_io (read_io w) (\<lambda>buffer.
     bind_io (invoke (Ws_close normal) (\<lambda>_. Done) (ws_close w normal)) (\<lambda>_.
     println [''[async] '', buffer])))))))))))"

definition async_test :: "world \<Rightarrow> string \<Rightarrow> string \<Rightarrow> string \<Rightarrow> string \<Rightarrow> trace" where
  "async_test w host port path text =
     (case async_test_body w host port path text [] of
        (Inr _, tr) \<Rightarrow> tr
      | (Inl e, tr) \<Rightarrow> snd (println [''[async] '', ''Error: '', what e] tr))"

subsection \<open>\<^verbatim>\<open>main\<close>\<close>

definition usage :: string where
  "usage = ''Usage: websocket-client-sync-ssl <host> <port> <text>'' @ [CHR 0x0A]
         @ ''Example:'' @ [CHR 0x0A]
         @ ''    websocket-client-sync-ssl echo.websocket.org 443 ''
         @ [CHR 0x22] @ ''Hello, world!'' @ [CHR 0x22, CHR 0x0A]"

text \<open>
  What a run of the process shows: its exit status and one trace for each thread of
  control, the main thread, the worker started with \<^verbatim>\<open>std::async\<close> and the coroutine
  spawned on the \<^verbatim>\<open>io_context\<close>. The two pipelines open a connection each, so each meets
  a world of its own; how their calls interleave in time is not part of the model.
  \<open>argv\<close> holds the \<^verbatim>\<open>argc\<close> strings of the command line, the program name first.
\<close>

record process =
  exit_status :: int
  main_thread :: trace
  sync_thread :: trace
  async_task :: trace

definition main :: "world \<Rightarrow> world \<Rightarrow> string list \<Rightarrow> process" where
  "main w_sync w_async argv =
     (if int (length argv) \<noteq> 4
      then \<lparr>exit_status = EXIT_FAILURE, main_thread = [(Cerr usage, Done)],
            sync_thread = [], async_task = []\<rparr>
      else
        let host = argv ! 1; port = argv ! 2; text = argv ! 3
        in \<lparr>exit_status = EXIT_SUCCESS,
            main_thread = [(Load_root_certificates, Done)],
            sync_thread = sync_test w_sync host port ''/401'' text,
            async_task = async_test w_async host port ''/401'' text\<rparr>)"

subsection \<open>The two functions side by side\<close>

text \<open>
  The claims speak of the pipeline in either execution mode. \<open>pipeline v\<close> is the
  function of mode \<open>v\<close>, \<open>pipeline_body v\<close> its \<^verbatim>\<open>try\<close> block and \<open>tag v\<close> the
  prefix it prints on every line.
\<close>

datatype variant = Blocking | Cooperative

fun tag :: "variant \<Rightarrow> string" where
  "tag Blocking = ''[sync] ''"
| "tag Cooperative = ''[async] ''"

fun pipeline_body ::
  "variant \<Rightarrow> world \<Rightarrow> string \<Rightarrow> string \<Rightarrow> string \<Rightarrow> string \<Rightarrow> unit io" where
  "pipeline_body Blocking = sync_test_body"
| "pipeline_body Cooperative = async_test_body"

fun pipeline ::
  "variant \<Rightarrow> world \<Rightarrow> string \<Rightarrow> string \<Rightarrow> string \<Rightarrow> string \<Rightarrow> trace" where
  "pipeline Blocking = sync_test"
| "pipeline Cooperative = async_test"

declare pipeline_body.simps [simp del] pipeline.simps [simp del]

text \<open>
  The runs of a \<^verbatim>\<open>try\<close> block in closed form, listed by the call at which they end.
  Lemmas \<open>sync_test_body_session\<close> and \<open>async_test_body_session\<close> below prove that
  this is what the two blocks compute.
\<close>

definition session ::
  "string \<Rightarrow> world \<Rightarrow> string \<Rightarrow> string \<Rightarrow> string \<Rightarrow> string
     \<Rightarrow> (exception + unit) \<times> trace" where
  "session tg w host port path text =
     (case resolve w host port of
        Throws e \<Rightarrow> (Inl e, [(Resolve host port, Raised e)])
      | Returns results \<Rightarrow>
     (case connect w results of
        Throws e \<Rightarrow>
          (Inl e, [(Resolve host port, Endpoints results), (Connect results, Raised e)])
      | Returns ep \<Rightarrow>
     (let rc = set_tlsext_host_name w (c_str host);
          connected = [(Resolve host port, Endpoints results), (Connect results, Connected ep),
                       (SSL_set_tlsext_host_name (c_str host), Status rc)]
      in
      if rc = 0
      then (Inl (system_error w
                   \<lparr>ec_value = sint (ucast (ERR_get_error w) :: 32 word),
                    ec_category = Ssl_category\<rparr>
                   ''Failed to set SNI Hostname''), connected)
      else
     (case ssl_handshake w of
        Throws e \<Rightarrow> (Inl e, connected @ [(Ssl_handshake, Raised e)])
      | Returns _ \<Rightarrow>
     (let req = \<lparr>req_target = path,
                 req_host = host @ '':'' @ to_string (unat (ep_port ep)),
                 req_user_agent =
                   Some (BOOST_BEAST_VERSION_STRING w @ '' websocket-client-coro'')\<rparr>;
          ec = fst (ws_handshake w req);
          response = snd (ws_handshake w req);
          upgraded = connected @
            [(Ssl_handshake, Done), (Ws_handshake req, Upgrade ec response),
             (Println (tg @ message w ec), Done), (Println (tg @ response), Done)]
      in
      if failed ec then (Inr (), upgraded)
      else
     (case ws_write w text of
        Throws e \<Rightarrow> (Inl e, upgraded @ [(Ws_write text, Raised e)])
      | Returns _ \<Rightarrow>
     (case ws_read w [text] of
        Throws e \<Rightarrow> (Inl e, upgraded @ [(Ws_write text, Done), (Ws_read, Raised e)])
      | Returns buffer \<Rightarrow>
     (case ws_close w normal of
        Throws e \<Rightarrow>
          (Inl e, upgraded @ [(Ws_write text, Done), (Ws_read, Message buffer),
                              (Ws_close normal, Raised e)])
      | Returns _ \<Rightarrow>
          (Inr (), upgraded @ [(Ws_write text, Done), (Ws_read, Message buffer),
                               (Ws_close normal, Done),
                               (Println (tg @ buffer), Done)])))))))))"

subsection \<open>Reading a trace\<close>

text \<open>The lines printed, the messages read and the requests sent for the upgrade.\<close>

fun printed :: "trace \<Rightarrow> string list" where
  "printed [] = []"
| "printed ((Println l, _) # tr) = l # printed tr"
| "printed (_ # tr) = printed tr"

fun received :: "trace \<Rightarrow> string list" where
  "received [] = []"
| "received ((Ws_read, Message m) # tr) = m # received tr"
| "received (_ # tr) = received tr"

fun upgrade_requests :: "trace \<Rightarrow> request_type list" where
  "upgrade_requests [] = []"
| "upgrade_requests ((Ws_handshake req, _) # tr) = req # upgrade_requests tr"
| "upgrade_requests (_ # tr) = upgrade_requests tr"

text \<open>The server names handed to the TLS layer.\<close>

fun server_names :: "trace \<Rightarrow> string list" where
  "server_names [] = []"
| "server_names ((SSL_set_tlsext_host_name name, _) # tr) = name # server_names tr"
| "server_names (_ # tr) = server_names tr"

text \<open>The calls of the message exchange and of the shutdown.\<close>

fun exchange :: "trace \<Rightarrow> call list" where
  "exchange [] = []"
| "exchange ((Ws_write m, _) # tr) = Ws_write m # exchange tr"
| "exchange ((Ws_read, _) # tr) = Ws_read # exchange tr"
| "exchange ((Ws_close c, _) # tr) = Ws_close c # exchange tr"
| "exchange (_ # tr) = exchange tr"

text \<open>The trace from the first call of \<open>c\<close> on.\<close>

definition from_call :: "call \<Rightarrow> trace \<Rightarrow> trace" where
  "from_call c tr = dropWhile (\<lambda>ev. fst ev \<noteq> c) tr"

text \<open>Events that the ordering claims speak of.\<close>

fun tls_established :: "call \<times> reply \<Rightarrow> bool" where
  "tls_established (Ssl_handshake, Done) = True"
| "tls_established _ = False"

fun upgrade_started :: "call \<times> reply \<Rightarrow> bool" where
  "upgrade_started (Ws_handshake _, _) = True"
| "upgrade_started _ = False"

fun upgrade_accepted :: "call \<times> reply \<Rightarrow> bool" where
  "upgrade_accepted (Ws_handshake _, Upgrade ec _) = (\<not> failed ec)"
| "upgrade_accepted _ = False"

fun message_sent :: "call \<times> reply \<Rightarrow> bool" where
  "message_sent (Ws_write _, _) = True"
| "message_sent _ = False"

fun message_received :: "call \<times> reply \<Rightarrow> bool" where
  "message_received (Ws_read, Message _) = True"
| "message_received _ = False"

fun close_initiated :: "call \<times> reply \<Rightarrow> bool" where
  "close_initiated (Ws_close _, _) = True"
| "close_initiated _ = False"

text \<open>\<open>before P Q tr\<close>: no event \<open>Q\<close> occurs in \<open>tr\<close> unless an event \<open>P\<close> came earlier.\<close>

fun before :: "(call \<times> reply \<Rightarrow> bool) \<Rightarrow> (call \<times> reply \<Rightarrow> bool) \<Rightarrow> trace \<Rightarrow> bool" where
  "before P Q [] = True"
| "before P Q (ev # tr) = (if P ev then True else if Q ev then False else before P Q tr)"

text \<open>A peer that answers with the message it was sent last.\<close>

definition echo_server :: "world \<Rightarrow> bool" where
  "echo_server w = (\<forall>ms. ms \<noteq> [] \<longrightarrow> ws_read w ms = Returns (last ms))"

subsection \<open>Example worlds\<close>

definition example_endpoint :: endpoint where
  "example_endpoint = \<lparr>ep_address = ''93.184.216.34'', ep_port = 8443\<rparr>"

definition example_message :: "error_code \<Rightarrow> string" where
  "example_message ec =
     (if ec_value ec = 0 then ''Success''
      else if ec_category ec = Websocket_category
      then ''The WebSocket handshake was declined by the remote peer''
      else if ec_category ec = Ssl_category then ''invalid argument''
      else ''Connection reset by peer'')"

text \<open>
  A host that resolves to one address on port 8443, whatever service was asked for,
  accepts the upgrade and echoes.
\<close>

definition echo_world :: world where
  "echo_world =
     \<lparr>resolve = (\<lambda>host port. Returns [example_endpoint]),
      connect = (\<lambda>eps. case eps of
                   [] \<Rightarrow> Throws (Std_exception ''connect: Host not found'')
                 | ep # _ \<Rightarrow> Returns ep),
      set_tlsext_host_name = (\<lambda>name. 1),
      ERR_get_error = 0,
      ssl_handshake = Returns (),
      ws_handshake = (\<lambda>req. (\<lparr>ec_value = 0, ec_category = System_category\<rparr>,
                              ''HTTP/1.1 101 Switching Protocols'')),
      ws_write = (\<lambda>m. Returns ()),
      ws_read = (\<lambda>ms. if ms = [] then Throws (Std_exception ''End of file'')
                        else Returns (last ms)),
      ws_close = (\<lambda>c. Returns ()),
      message = example_message,
      BOOST_BEAST_VERSION_STRING = ''Boost.Beast/347''\<rparr>"

text \<open>The same host answering the upgrade request with a 401.\<close>

definition declined_world :: world where
  "declined_world =
     echo_world\<lparr>ws_handshake :=
       (\<lambda>req. (\<lparr>ec_value = 18, ec_category = Websocket_category\<rparr>,
                ''HTTP/1.1 401 Unauthorized''))\<rparr>"

text \<open>The connection is reset while the upgrade request is under way.\<close>

definition reset_world :: world where
  "reset_world =
     echo_world\<lparr>ws_handshake :=
       (\<lambda>req. (\<lparr>ec_value = 104, ec_category = System_category\<rparr>, ''HTTP/1.1 200 OK''))\<rparr>"

text \<open>The peer echoes and then drops the connection instead of answering the close.\<close>

definition close_fails_world :: world where
  "close_fails_world =
     echo_world\<lparr>ws_close := (\<lambda>c. Throws (Std_exception ''Connection reset by peer''))\<rparr>"

text \<open>The name does not resolve.\<close>

definition unresolved_world :: world where
  "unresolved_world =
     echo_world\<lparr>resolve := (\<lambda>host port. Throws (Std_exception ''resolve: Host not found''))\<rparr>"

section \<open>The code computes the closed form\<close>

lemma bind_invoke:
  "bind_io (invoke c r res) f tr =
     (case res of
        Returns x \<Rightarrow> f x (tr @ [(c, r x)])
      | Throws e \<Rightarrow> (Inl e, tr @ [(c, Raised e)]))"
  by (simp add: bind_io_def invoke_def split: outcome.splits)

lemma bind_return: "bind_io (return_io x) f tr = f x tr"
  by (simp add: bind_io_def return_io_def)

lemma bind_throw: "bind_io (throw_io e) f tr = (Inl e, tr)"
  by (simp add: bind_io_def throw_io_def)

lemma println_run: "println args tr = (Inr (), tr @ [(Println (concat args), Done)])"
  by (simp add: println_def invoke_def)

lemma bind_println: "bind_io (println args) f tr = f () (tr @ [(Println (concat args), Done)])"
  by (simp add: bind_io_def println_run)

lemma bind_handshake:
  "bind_io (handshake_io w d host target) f tr =
     f (ws_handshake w (build_request d host target))
       (tr @ [(Ws_handshake (build_request d host target),
               Upgrade (fst (ws_handshake w (build_request d host target)))
                       (snd (ws_handshake w (build_request d host target))))])"
  by (simp add: handshake_io_def bind_invoke Let_def split: prod.splits)

lemma bind_read:
  "bind_io (read_io w) f tr =
     (case ws_read w (written tr) of
        Returns x \<Rightarrow> f x (tr @ [(Ws_read, Message x)])
      | Throws e \<Rightarrow> (Inl e, tr @ [(Ws_read, Raised e)]))"
  by (simp add: read_io_def bind_io_def invoke_def split: outcome.splits)

lemmas io_rules =
  bind_invoke bind_return bind_throw bind_println println_run bind_handshake bind_read
  return_io_def

lemma sync_test_body_session:
  "sync_test_body w host port path text [] = session ''[sync] '' w host port path text"
  by (simp add: sync_test_body_def session_def io_rules Let_def case_prod_beta
        build_request_def sync_decorator_def
      split: outcome.splits)

lemma async_test_body_session:
  "async_test_body w host port path text [] = session ''[async] '' w host port path text"
  by (simp add: async_test_body_def session_def io_rules Let_def case_prod_beta
        build_request_def async_decorator_def
      split: outcome.splits)

lemma pipeline_body_session:
  "pipeline_body v w host port path text [] = session (tag v) w host port path text"
  by (cases v)
     (simp_all add: pipeline_body.simps sync_test_body_session async_test_body_session)

lemma pipeline_session:
  "pipeline v w host port path text =
     (case session (tag v) w host port path text of
        (Inr u, tr) \<Rightarrow> tr
      | (Inl e, tr) \<Rightarrow> tr @ [(Println (tag v @ ''Error: '' @ what e), Done)])"
  by (cases v)
     (simp_all add: pipeline.simps sync_test_def async_test_def sync_test_body_session
        async_test_body_session println_run split: prod.splits sum.splits)

lemma c_str_no_nul: "CHR 0x00 \<notin> set s \<Longrightarrow> c_str s = s"
  by (auto simp add: c_str_def takeWhile_eq_all_conv)

lemma to_string_small: "n < 10 \<Longrightarrow> to_string n = [digit n]"
  by (simp add: to_string.simps)

lemma to_string_big: "\<not> n < 10 \<Longrightarrow> to_string n = to_string (n div 10) @ [digit (n mod 10)]"
  by (subst to_string.simps) simp

lemma to_string_8443: "to_string (unat (ep_port example_endpoint)) = ''8443''"
  by (simp add: example_endpoint_def to_string_small to_string_big digit_def)

section \<open>Runs in the example worlds\<close>


lemma echo_world_run:
  "pipeline v echo_world host port path text =
     [(Resolve host port, Endpoints [example_endpoint]),
      (Connect [example_endpoint], Connected example_endpoint),
      (SSL_set_tlsext_host_name (c_str host), Status 1),
      (Ssl_handshake, Done),
      (Ws_handshake \<lparr>req_target = path, req_host = host @ '':8443'',
                      req_user_agent = Some ''Boost.Beast/347 websocket-client-coro''\<rparr>,
       Upgrade \<lparr>ec_value = 0, ec_category = System_category\<rparr>
         ''HTTP/1.1 101 Switching Protocols''),
      (Println (tag v @ ''Success''), Done),
      (Println (tag v @ ''HTTP/1.1 101 Switching Protocols''), Done),
      (Ws_write text, Done),
      (Ws_read, Message text),
      (Ws_close normal, Done),
      (Println (tag v @ text), Done)]"
  by (simp add: pipeline_session session_def echo_world_def to_string_8443 failed_def
        example_message_def Let_def)

lemma declined_world_body:
  "pipeline_body v declined_world host port path text [] =
     (Inr (),
      [(Resolve host port, Endpoints [example_endpoint]),
       (Connect [example_endpoint], Connected example_endpoint),
       (SSL_set_tlsext_host_name (c_str host), Status 1),
       (Ssl_handshake, Done),
       (Ws_handshake \<lparr>req_target = path, req_host = host @ '':8443'',
                       req_user_agent = Some ''Boost.Beast/347 websocket-client-coro''\<rparr>,
        Upgrade \<lparr>ec_value = 18, ec_category = Websocket_category\<rparr>
          ''HTTP/1.1 401 Unauthorized''),
       (Println (tag v @ ''The WebSocket handshake was declined by the remote peer''), Done),
       (Println (tag v @ ''HTTP/1.1 401 Unauthorized''), Done)])"
  by (simp add: pipeline_body_session session_def declined_world_def echo_world_def
        to_string_8443 failed_def example_message_def Let_def)

lemma declined_world_run:
  "pipeline v declined_world host port path text =
     snd (pipeline_body v declined_world host port path text [])"
  by (simp add: pipeline_session pipeline_body_session[symmetric] declined_world_body)

lemma reset_world_body:
  "pipeline_body v reset_world host port path text [] =
     (Inr (),
      [(Resolve host port, Endpoints [example_endpoint]),
       (Connect [example_endpoint], Connected example_endpoint),
       (SSL_set_tlsext_host_name (c_str host), Status 1),
       (Ssl_handshake, Done),
       (Ws_handshake \<lparr>req_target = path, req_host = host @ '':8443'',
                       req_user_agent = Some ''Boost.Beast/347 websocket-client-coro''\<rparr>,
        Upgrade \<lparr>ec_value = 104, ec_category = System_category\<rparr> ''HTTP/1.1 200 OK''),
       (Println (tag v @ ''Connection reset by peer''), Done),
       (Println (tag v @ ''HTTP/1.1 200 OK''), Done)])"
  by (simp add: pipeline_body_session session_def reset_world_def echo_world_def
        to_string_8443 failed_def example_message_def Let_def)

lemma reset_world_run:
  "pipeline v reset_world host port path text =
     snd (pipeline_body v reset_world host port path text [])"
  by (simp add: pipeline_session pipeline_body_session[symmetric] reset_world_body)

lemma close_fails_world_run:
  "pipeline v close_fails_world host port path text =
     [(Resolve host port, Endpoints [example_endpoint]),
      (Connect [example_endpoint], Connected example_endpoint),
      (SSL_set_tlsext_host_name (c_str host), Status 1),
      (Ssl_handshake, Done),
      (Ws_handshake \<lparr>req_target = path, req_host = host @ '':8443'',
                      req_user_agent = Some ''Boost.Beast/347 websocket-client-coro''\<rparr>,
       Upgrade \<lparr>ec_value = 0, ec_category = System_category\<rparr>
         ''HTTP/1.1 101 Switching Protocols''),
      (Println (tag v @ ''Success''), Done),
      (Println (tag v @ ''HTTP/1.1 101 Switching Protocols''), Done),
      (Ws_write text, Done),
      (Ws_read, Message text),
      (Ws_close normal, Raised (Std_exception ''Connection reset by peer'')),
      (Println (tag v @ ''Error: Connection reset by peer''), Done)]"
  by (simp add: pipeline_session session_def close_fails_world_def echo_world_def
        to_string_8443 failed_def example_message_def Let_def)

lemma unresolved_world_body:
  "pipeline_body v unresolved_world host port path text [] =
     (Inl (Std_exception ''resolve: Host not found''),
      [(Resolve host port, Raised (Std_exception ''resolve: Host not found''))])"
  by (simp add: pipeline_body_session session_def unresolved_world_def echo_world_def)

lemma unresolved_world_run:
  "pipeline v unresolved_world host port path text =
     [(Resolve host port, Raised (Std_exception ''resolve: Host not found'')),
      (Println (tag v @ ''Error: resolve: Host not found''), Done)]"
  by (simp add: pipeline_session pipeline_body_session[symmetric] unresolved_world_body)

lemma c_str_example: "c_str ''example.com'' = ''example.com''"
  by (simp add: c_str_def)

section \<open>The claims\<close>

text \<open>
  C1. In either mode, whenever the pipeline reaches the WebSocket upgrade, the Host value
  of the upgrade request is the host string as supplied, a colon, and the decimal
  rendering of the port of the endpoint that \<open>connect\<close> returned. The port string that
  was supplied does not enter it: in the witness the port asked for is \<open>443\<close> and the
  endpoint connected to has port 8443.
\<close>

theorem upgrade_host_is_host_and_connected_port:
  assumes "(Connect results, Connected ep) \<in> set (pipeline v w host port path text)"
    and "(Ws_handshake req, r) \<in> set (pipeline v w host port path text)"
  shows "req_host req = host @ '':'' @ to_string (unat (ep_port ep))"
  using assms
  by (auto simp add: pipeline_session session_def Let_def split: outcome.splits if_splits)

theorem upgrade_host_is_host_and_connected_port_witness:
  "(Connect [example_endpoint], Connected example_endpoint)
     \<in> set (pipeline Blocking echo_world ''example.com'' ''443'' ''/401'' ''Hello, world!'')
   \<and> (Ws_handshake \<lparr>req_target = ''/401'', req_host = ''example.com:8443'',
                      req_user_agent = Some ''Boost.Beast/347 websocket-client-coro''\<rparr>,
        Upgrade \<lparr>ec_value = 0, ec_category = System_category\<rparr>
          ''HTTP/1.1 101 Switching Protocols'')
     \<in> set (pipeline Blocking echo_world ''example.com'' ''443'' ''/401'' ''Hello, world!'')
   \<and> ''example.com:8443'' = ''example.com'' @ '':'' @ to_string (unat (ep_port example_endpoint))"
proof -
  let ?tr = "pipeline Blocking echo_world ''example.com'' ''443'' ''/401'' ''Hello, world!''"
  let ?req = "\<lparr>req_target = ''/401'', req_host = ''example.com:8443'',
                req_user_agent = Some ''Boost.Beast/347 websocket-client-coro''\<rparr>"
  have c: "(Connect [example_endpoint], Connected example_endpoint) \<in> set ?tr"
    by (simp add: echo_world_run)
  have h: "(Ws_handshake ?req, Upgrade \<lparr>ec_value = 0, ec_category = System_category\<rparr>
              ''HTTP/1.1 101 Switching Protocols'') \<in> set ?tr"
    by (simp add: echo_world_run)
  show ?thesis
    using c h upgrade_host_is_host_and_connected_port [OF c h] by simp
qed

text \<open>
  C2. In either mode, in every world in which the name resolves and the connection is
  made, the pipeline hands exactly one server name to \<^verbatim>\<open>SSL_set_tlsext_host_name\<close>, and
  it is the host string as supplied, without the port suffix that the Host value of the
  later upgrade request carries; no call in the trace names anything else. The function
  receives \<^verbatim>\<open>host.c_str()\<close>, a C string, so the statement is for host strings without a
  NUL character, as every command-line argument is. The witness runs both functions on
  \<open>example.com\<close>.
\<close>

theorem sni_is_host_as_supplied:
  assumes "CHR 0x00 \<notin> set host"
    and "resolve w host port = Returns results"
    and "connect w results = Returns ep"
  shows "server_names (pipeline v w host port path text) = [host]
   \<and> (SSL_set_tlsext_host_name host, Status (set_tlsext_host_name w host))
       \<in> set (pipeline v w host port path text)
   \<and> (\<forall>name r. (SSL_set_tlsext_host_name name, r) \<in> set (pipeline v w host port path text)
         \<longrightarrow> name = host)"
proof -
  let ?tr = "pipeline v w host port path text"
  from assms(1) have c: "c_str host = host"
    by (rule c_str_no_nul)
  have names: "server_names ?tr = [host]"
    by (simp add: pipeline_session session_def Let_def c assms(2,3) split: outcome.splits)
  have called: "(SSL_set_tlsext_host_name host, Status (set_tlsext_host_name w host)) \<in> set ?tr"
    by (simp add: pipeline_session session_def Let_def c assms(2,3) split: outcome.splits)
  have only: "\<forall>name r. (SSL_set_tlsext_host_name name, r) \<in> set ?tr \<longrightarrow> name = host"
    by (auto simp add: pipeline_session session_def Let_def c assms(2,3)
        split: outcome.splits if_splits)
  from names called only show ?thesis
    by (intro conjI)
qed

theorem sni_is_host_as_supplied_witness:
  "CHR 0x00 \<notin> set ''example.com''
   \<and> resolve echo_world ''example.com'' ''443'' = Returns [example_endpoint]
   \<and> connect echo_world [example_endpoint] = Returns example_endpoint
   \<and> server_names (pipeline Blocking echo_world ''example.com'' ''443'' ''/401''
        ''Hello, world!'') = [''example.com'']
   \<and> server_names (pipeline Cooperative echo_world ''example.com'' ''443'' ''/401''
        ''Hello, world!'') = [''example.com'']
   \<and> (SSL_set_tlsext_host_name ''example.com'', Status 1)
       \<in> set (pipeline Blocking echo_world ''example.com'' ''443'' ''/401'' ''Hello, world!'')
   \<and> (SSL_set_tlsext_host_name ''example.com'', Status 1)
       \<in> set (pipeline Cooperative echo_world ''example.com'' ''443'' ''/401''
                ''Hello, world!'')"
proof -
  have n: "CHR 0x00 \<notin> set ''example.com''"
    by simp
  have r: "resolve echo_world ''example.com'' ''443'' = Returns [example_endpoint]"
    by (simp add: echo_world_def)
  have c: "connect echo_world [example_endpoint] = Returns example_endpoint"
    by (simp add: echo_world_def)
  have st: "set_tlsext_host_name echo_world ''example.com'' = 1"
    by (simp add: echo_world_def)
  note sync = sni_is_host_as_supplied [OF n r c, of Blocking "''/401''" "''Hello, world!''"]
  note async = sni_is_host_as_supplied [OF n r c, of Cooperative "''/401''" "''Hello, world!''"]
  from sync have s1: "server_names (pipeline Blocking echo_world ''example.com'' ''443''
      ''/401'' ''Hello, world!'') = [''example.com'']"
    by (rule conjunct1)
  from async have a1: "server_names (pipeline Cooperative echo_world ''example.com'' ''443''
      ''/401'' ''Hello, world!'') = [''example.com'']"
    by (rule conjunct1)
  from sync have s2: "(SSL_set_tlsext_host_name ''example.com'', Status 1)
      \<in> set (pipeline Blocking echo_world ''example.com'' ''443'' ''/401'' ''Hello, world!'')"
    by (simp only: st)
  from async have a2: "(SSL_set_tlsext_host_name ''example.com'', Status 1)
      \<in> set (pipeline Cooperative echo_world ''example.com'' ''443'' ''/401''
               ''Hello, world!'')"
    by (simp only: st)
  from n r c s1 a1 s2 a2 show ?thesis
    by (intro conjI)
qed

text \<open>
  C3. If the upgrade handshake comes back with the error code set, the \<^verbatim>\<open>try\<close> block
  returns normally, so the handler adds nothing to the trace. From the handshake on
  the trace holds the handshake and the two lines that report the message of the code and
  the response; these are the only lines printed, and no write, read or close is called.
\<close>

theorem rejected_upgrade_is_reported_and_ends_run:
  assumes "(Ws_handshake req, Upgrade ec response) \<in> set (pipeline v w host port path text)"
    and "failed ec"
  shows "pipeline_body v w host port path text [] = (Inr (), pipeline v w host port path text)
   \<and> from_call (Ws_handshake req) (pipeline v w host port path text) =
       [(Ws_handshake req, Upgrade ec response),
        (Println (tag v @ message w ec), Done),
        (Println (tag v @ response), Done)]
   \<and> printed (pipeline v w host port path text) = [tag v @ message w ec, tag v @ response]
   \<and> exchange (pipeline v w host port path text) = []"
  using assms
  by (auto simp add: pipeline_session pipeline_body_session session_def Let_def from_call_def
      split: outcome.splits if_splits)

theorem rejected_upgrade_is_reported_and_ends_run_witness:
  "(Ws_handshake \<lparr>req_target = ''/401'', req_host = ''example.com:8443'',
                    req_user_agent = Some ''Boost.Beast/347 websocket-client-coro''\<rparr>,
      Upgrade \<lparr>ec_value = 18, ec_category = Websocket_category\<rparr> ''HTTP/1.1 401 Unauthorized'')
     \<in> set (pipeline Blocking declined_world ''example.com'' ''443'' ''/401'' ''Hello, world!'')
   \<and> failed \<lparr>ec_value = 18, ec_category = Websocket_category\<rparr>
   \<and> fst (pipeline_body Blocking declined_world ''example.com'' ''443'' ''/401''
              ''Hello, world!'' []) = Inr ()
   \<and> printed (pipeline Blocking declined_world ''example.com'' ''443'' ''/401''
                ''Hello, world!'') =
       [''[sync] The WebSocket handshake was declined by the remote peer'',
        ''[sync] HTTP/1.1 401 Unauthorized'']
   \<and> exchange (pipeline Blocking declined_world ''example.com'' ''443'' ''/401''
                 ''Hello, world!'') = []"
proof -
  let ?tr = "pipeline Blocking declined_world ''example.com'' ''443'' ''/401'' ''Hello, world!''"
  let ?req = "\<lparr>req_target = ''/401'', req_host = ''example.com:8443'',
                req_user_agent = Some ''Boost.Beast/347 websocket-client-coro''\<rparr>"
  let ?ec = "\<lparr>ec_value = 18, ec_category = Websocket_category\<rparr>"
  have h: "(Ws_handshake ?req, Upgrade ?ec ''HTTP/1.1 401 Unauthorized'') \<in> set ?tr"
    by (simp add: declined_world_run declined_world_body)
  have f: "failed ?ec"
    by (simp add: failed_def)
  have m: "message declined_world ?ec = ''The WebSocket handshake was declined by the remote peer''"
    by (simp add: declined_world_def echo_world_def example_message_def)
  show ?thesis
    using h f m rejected_upgrade_is_reported_and_ends_run [OF h f] by simp
qed

text \<open>
  C4. The claim has the two modes attach different suffixes to the product token. They
  do not: both decorators append the same literal. In the example world the upgrade
  request of \<^verbatim>\<open>sync_test\<close> and that of \<^verbatim>\<open>async_test\<close> carry the same User-Agent.
\<close>

theorem user_agent_suffix_differs_counterexample:
  "map req_user_agent (upgrade_requests
       (sync_test echo_world ''example.com'' ''443'' ''/401'' ''Hello, world!'')) =
     [Some ''Boost.Beast/347 websocket-client-coro'']
   \<and> map req_user_agent (upgrade_requests
       (async_test echo_world ''example.com'' ''443'' ''/401'' ''Hello, world!'')) =
     [Some ''Boost.Beast/347 websocket-client-coro'']"
  by (simp add: pipeline.simps [symmetric] echo_world_run)

text \<open>
  C4, as the code has it. In either mode every upgrade request carries a User-Agent, and it
  is the version string of the library followed by the fixed suffix
  \<^verbatim>\<open> websocket-client-coro\<close>, the same in both modes.
\<close>

theorem user_agent_is_version_and_fixed_suffix:
  assumes "(Ws_handshake req, r) \<in> set (pipeline v w host port path text)"
  shows "req_user_agent req = Some (BOOST_BEAST_VERSION_STRING w @ '' websocket-client-coro'')"
  using assms
  by (auto simp add: pipeline_session session_def Let_def split: outcome.splits if_splits)

theorem user_agent_is_version_and_fixed_suffix_witness:
  "(Ws_handshake \<lparr>req_target = ''/401'', req_host = ''example.com:8443'',
                    req_user_agent = Some ''Boost.Beast/347 websocket-client-coro''\<rparr>,
      Upgrade \<lparr>ec_value = 104, ec_category = System_category\<rparr> ''HTTP/1.1 200 OK'')
     \<in> set (pipeline Cooperative reset_world ''example.com'' ''443'' ''/401'' ''Hello, world!'')
   \<and> Some ''Boost.Beast/347 websocket-client-coro'' =
       Some (BOOST_BEAST_VERSION_STRING reset_world @ '' websocket-client-coro'')"
proof -
  let ?tr = "pipeline Cooperative reset_world ''example.com'' ''443'' ''/401'' ''Hello, world!''"
  let ?req = "\<lparr>req_target = ''/401'', req_host = ''example.com:8443'',
                req_user_agent = Some ''Boost.Beast/347 websocket-client-coro''\<rparr>"
  have h: "(Ws_handshake ?req,
            Upgrade \<lparr>ec_value = 104, ec_category = System_category\<rparr> ''HTTP/1.1 200 OK'')
             \<in> set ?tr"
    by (simp add: reset_world_run reset_world_body)
  show ?thesis
    using h user_agent_is_version_and_fixed_suffix [OF h] by simp
qed

text \<open>
  C5. The claim has a transport-level failure during the upgrade thrown and caught by the
  handler. The handshake is called with an error code to fill in, so nothing is thrown:
  when the connection is reset during the upgrade (a code of the system category), the
  \<^verbatim>\<open>try\<close> block of \<^verbatim>\<open>sync_test\<close> prints the message and the response and returns
  normally, exactly as it does for a declined upgrade.
\<close>

theorem transport_failure_is_thrown_counterexample:
  "sync_test_body reset_world ''example.com'' ''443'' ''/401'' ''Hello, world!'' [] =
     (Inr (),
      [(Resolve ''example.com'' ''443'', Endpoints [example_endpoint]),
       (Connect [example_endpoint], Connected example_endpoint),
       (SSL_set_tlsext_host_name ''example.com'', Status 1),
       (Ssl_handshake, Done),
       (Ws_handshake \<lparr>req_target = ''/401'', req_host = ''example.com:8443'',
                       req_user_agent = Some ''Boost.Beast/347 websocket-client-coro''\<rparr>,
        Upgrade \<lparr>ec_value = 104, ec_category = System_category\<rparr> ''HTTP/1.1 200 OK''),
       (Println ''[sync] Connection reset by peer'', Done),
       (Println ''[sync] HTTP/1.1 200 OK'', Done)])"
  by (simp add: pipeline_body.simps [symmetric] reset_world_body c_str_example)

text \<open>
  C5, as the code has it. In either mode the reply to the upgrade call is never an
  exception: it is the error code and the response. Whenever the code is set, whatever its
  category, the \<^verbatim>\<open>try\<close> block returns normally, the handler is not entered, and the
  lines printed are the message of the code and the response. A transport failure and a
  rejection differ in the value of the code, not in the path taken.
\<close>

theorem upgrade_failure_is_never_thrown:
  assumes "(Ws_handshake req, r) \<in> set (pipeline v w host port path text)"
  shows "r = Upgrade (fst (ws_handshake w req)) (snd (ws_handshake w req))
   \<and> (failed (fst (ws_handshake w req)) \<longrightarrow>
        pipeline_body v w host port path text [] = (Inr (), pipeline v w host port path text)
        \<and> printed (pipeline v w host port path text) =
            [tag v @ message w (fst (ws_handshake w req)), tag v @ snd (ws_handshake w req)])"
  using assms
  by (auto simp add: pipeline_session pipeline_body_session session_def Let_def
      split: outcome.splits if_splits)

theorem upgrade_failure_is_never_thrown_witness:
  "(Ws_handshake \<lparr>req_target = ''/401'', req_host = ''example.com:8443'',
                    req_user_agent = Some ''Boost.Beast/347 websocket-client-coro''\<rparr>,
      Upgrade \<lparr>ec_value = 104, ec_category = System_category\<rparr> ''HTTP/1.1 200 OK'')
     \<in> set (pipeline Blocking reset_world ''example.com'' ''443'' ''/401'' ''Hello, world!'')
   \<and> fst (pipeline_body Blocking reset_world ''example.com'' ''443'' ''/401''
             ''Hello, world!'' []) = Inr ()
   \<and> printed (pipeline Blocking reset_world ''example.com'' ''443'' ''/401''
                ''Hello, world!'') =
       [''[sync] Connection reset by peer'', ''[sync] HTTP/1.1 200 OK'']"
proof -
  let ?tr = "pipeline Blocking reset_world ''example.com'' ''443'' ''/401'' ''Hello, world!''"
  let ?req = "\<lparr>req_target = ''/401'', req_host = ''example.com:8443'',
                req_user_agent = Some ''Boost.Beast/347 websocket-client-coro''\<rparr>"
  have h: "(Ws_handshake ?req,
            Upgrade \<lparr>ec_value = 104, ec_category = System_category\<rparr> ''HTTP/1.1 200 OK'')
             \<in> set ?tr"
    by (simp add: reset_world_run reset_world_body)
  have w: "ws_handshake reset_world ?req =
             (\<lparr>ec_value = 104, ec_category = System_category\<rparr>, ''HTTP/1.1 200 OK'')"
    by (simp add: reset_world_def)
  have f: "failed (fst (ws_handshake reset_world ?req))"
    by (simp add: w failed_def)
  have m: "message reset_world (fst (ws_handshake reset_world ?req)) =
             ''Connection reset by peer''"
    by (simp add: reset_world_def echo_world_def example_message_def)
  have s: "snd (ws_handshake reset_world ?req) = ''HTTP/1.1 200 OK''"
    by (simp add: w)
  from upgrade_failure_is_never_thrown [OF h] f
  have "pipeline_body Blocking reset_world ''example.com'' ''443'' ''/401''
          ''Hello, world!'' [] = (Inr (), ?tr)
        \<and> printed ?tr =
            [tag Blocking @ message reset_world (fst (ws_handshake reset_world ?req)),
             tag Blocking @ snd (ws_handshake reset_world ?req)]"
    by blast
  then have "fst (pipeline_body Blocking reset_world ''example.com'' ''443'' ''/401''
                ''Hello, world!'' []) = Inr ()
        \<and> printed ?tr = [''[sync] Connection reset by peer'', ''[sync] HTTP/1.1 200 OK'']"
    by (simp only: m s fst_conv tag.simps append.simps)
  with h show ?thesis
    by blast
qed

text \<open>
  C6. The claim has a close initiated before the connection is discarded also on the
  soft-rejection and error paths. On a declined upgrade \<^verbatim>\<open>async_test\<close> connects,
  reports and returns; its trace holds no close.
\<close>

theorem close_before_discard_counterexample:
  "async_test declined_world ''example.com'' ''443'' ''/401'' ''Hello, world!'' =
     [(Resolve ''example.com'' ''443'', Endpoints [example_endpoint]),
      (Connect [example_endpoint], Connected example_endpoint),
      (SSL_set_tlsext_host_name ''example.com'', Status 1),
      (Ssl_handshake, Done),
      (Ws_handshake \<lparr>req_target = ''/401'', req_host = ''example.com:8443'',
                      req_user_agent = Some ''Boost.Beast/347 websocket-client-coro''\<rparr>,
       Upgrade \<lparr>ec_value = 18, ec_category = Websocket_category\<rparr>
         ''HTTP/1.1 401 Unauthorized''),
      (Println ''[async] The WebSocket handshake was declined by the remote peer'', Done),
      (Println ''[async] HTTP/1.1 401 Unauthorized'', Done)]"
  by (simp add: pipeline.simps [symmetric] declined_world_run declined_world_body c_str_example)

text \<open>
  C6, as the code has it. In every run of either mode, no upgrade is started unless the TLS
  handshake has completed, no message is sent unless the upgrade was accepted, and no
  close is initiated unless the reply has been read; a close is initiated in exactly the
  runs in which the reply was read. On the other paths the connection is discarded
  without one.
\<close>

theorem handshakes_ordered_and_close_follows_read:
  "before tls_established upgrade_started (pipeline v w host port path text)
   \<and> before upgrade_accepted message_sent (pipeline v w host port path text)
   \<and> before message_received close_initiated (pipeline v w host port path text)
   \<and> list_ex close_initiated (pipeline v w host port path text) =
       list_ex message_received (pipeline v w host port path text)"
proof -
  let ?tr = "pipeline v w host port path text"
  have tls: "before tls_established upgrade_started ?tr"
    by (simp add: pipeline_session session_def Let_def split: outcome.splits)
  have upgrade: "before upgrade_accepted message_sent ?tr"
    by (simp add: pipeline_session session_def Let_def split: outcome.splits)
  have close: "before message_received close_initiated ?tr"
    by (simp add: pipeline_session session_def Let_def split: outcome.splits)
  have same_runs: "list_ex close_initiated ?tr = list_ex message_received ?tr"
    by (simp add: pipeline_session session_def Let_def split: outcome.splits)
  from tls upgrade close same_runs show ?thesis
    by (intro conjI)
qed

theorem handshakes_ordered_and_close_follows_read_witness:
  "before tls_established upgrade_started
     (pipeline Blocking close_fails_world ''example.com'' ''443'' ''/401'' ''Hello, world!'')
   \<and> before upgrade_accepted message_sent
     (pipeline Blocking close_fails_world ''example.com'' ''443'' ''/401'' ''Hello, world!'')
   \<and> before message_received close_initiated
     (pipeline Blocking close_fails_world ''example.com'' ''443'' ''/401'' ''Hello, world!'')
   \<and> list_ex close_initiated
     (pipeline Blocking close_fails_world ''example.com'' ''443'' ''/401'' ''Hello, world!'')
   \<and> list_ex message_received
     (pipeline Blocking close_fails_world ''example.com'' ''443'' ''/401'' ''Hello, world!'')"
  using handshakes_ordered_and_close_follows_read
    [of Blocking close_fails_world "''example.com''" "''443''" "''/401''" "''Hello, world!''"]
  by (simp add: close_fails_world_run)

text \<open>
  C7. With an argument count other than four (the program name and three arguments),
  \<^verbatim>\<open>main\<close> writes the usage text to the error stream and returns \<^verbatim>\<open>EXIT_FAILURE\<close>,
  which is not zero; neither pipeline is started, so no call to the resolver, a socket or
  the TLS layer is made.
\<close>

theorem wrong_argument_count_prints_usage_and_fails:
  assumes "length argv \<noteq> 4"
  shows "main w_sync w_async argv =
           \<lparr>exit_status = EXIT_FAILURE, main_thread = [(Cerr usage, Done)],
            sync_thread = [], async_task = []\<rparr>
         \<and> EXIT_FAILURE \<noteq> 0"
  using assms by (simp add: main_def EXIT_FAILURE_def)

theorem wrong_argument_count_prints_usage_and_fails_witness:
  "length [''websocket-client-sync-ssl'', ''example.com'', ''443''] \<noteq> 4
   \<and> exit_status (main echo_world echo_world
         [''websocket-client-sync-ssl'', ''example.com'', ''443'']) = 1
   \<and> main_thread (main echo_world echo_world
         [''websocket-client-sync-ssl'', ''example.com'', ''443'']) = [(Cerr usage, Done)]
   \<and> sync_thread (main echo_world echo_world
         [''websocket-client-sync-ssl'', ''example.com'', ''443'']) = []
   \<and> async_task (main echo_world echo_world
         [''websocket-client-sync-ssl'', ''example.com'', ''443'']) = []"
proof -
  have n: "length [''websocket-client-sync-ssl'', ''example.com'', ''443''] \<noteq> 4"
    by simp
  show ?thesis
    using n wrong_argument_count_prints_usage_and_fails [OF n, of echo_world echo_world]
    by (simp add: EXIT_FAILURE_def)
qed

text \<open>
  C8. With four entries in \<open>argv\<close> the exit status is zero whatever the two worlds do.
  Each pipeline runs in its own world, and an exception that leaves the \<^verbatim>\<open>try\<close> block of
  a pipeline is turned by its handler into one more line, tagged with the mode and
  holding \<^verbatim>\<open>what()\<close>; a block that returns normally adds nothing.
\<close>

theorem well_formed_invocation_exits_zero:
  assumes "length argv = 4"
  shows "exit_status (main w_sync w_async argv) = 0
   \<and> sync_thread (main w_sync w_async argv) =
       pipeline Blocking w_sync (argv ! 1) (argv ! 2) ''/401'' (argv ! 3)
   \<and> async_task (main w_sync w_async argv) =
       pipeline Cooperative w_async (argv ! 1) (argv ! 2) ''/401'' (argv ! 3)
   \<and> (pipeline_body v w host port path text [] = (Inl e, tr) \<longrightarrow>
        pipeline v w host port path text =
          tr @ [(Println (tag v @ ''Error: '' @ what e), Done)])
   \<and> (pipeline_body v w host port path text [] = (Inr (), tr) \<longrightarrow>
        pipeline v w host port path text = tr)"
  using assms
  by (simp add: main_def EXIT_SUCCESS_def Let_def pipeline.simps pipeline_session
        pipeline_body_session)

theorem well_formed_invocation_exits_zero_witness:
  "length [''websocket-client-sync-ssl'', ''example.com'', ''443'', ''Hello, world!''] = 4
   \<and> exit_status (main echo_world unresolved_world
         [''websocket-client-sync-ssl'', ''example.com'', ''443'', ''Hello, world!'']) = 0
   \<and> async_task (main echo_world unresolved_world
         [''websocket-client-sync-ssl'', ''example.com'', ''443'', ''Hello, world!'']) =
       [(Resolve ''example.com'' ''443'', Raised (Std_exception ''resolve: Host not found'')),
        (Println ''[async] Error: resolve: Host not found'', Done)]"
proof -
  let ?argv = "[''websocket-client-sync-ssl'', ''example.com'', ''443'', ''Hello, world!'']"
  have n: "length ?argv = 4"
    by simp
  have b: "pipeline_body Cooperative unresolved_world ''example.com'' ''443'' ''/401''
             ''Hello, world!'' [] =
           (Inl (Std_exception ''resolve: Host not found''),
            [(Resolve ''example.com'' ''443'',
              Raised (Std_exception ''resolve: Host not found''))])"
    by (rule unresolved_world_body)
  note t = well_formed_invocation_exits_zero [OF n, of echo_world unresolved_world
      Cooperative unresolved_world "''example.com''" "''443''" "''/401''" "''Hello, world!''"
      "Std_exception ''resolve: Host not found''"
      "[(Resolve ''example.com'' ''443'', Raised (Std_exception ''resolve: Host not found''))]"]
  from t have x: "exit_status (main echo_world unresolved_world ?argv) = 0"
    by blast
  from t have a: "async_task (main echo_world unresolved_world ?argv) =
       pipeline Cooperative unresolved_world (?argv ! 1) (?argv ! 2) ''/401'' (?argv ! 3)"
    by blast
  from t b have p: "pipeline Cooperative unresolved_world ''example.com'' ''443'' ''/401''
        ''Hello, world!'' =
      [(Resolve ''example.com'' ''443'', Raised (Std_exception ''resolve: Host not found''))]
      @ [(Println (tag Cooperative @ ''Error: '' @
           what (Std_exception ''resolve: Host not found'')), Done)]"
    by blast
  show ?thesis
    using n x by (simp add: a p)
qed

text \<open>
  C9. For every payload, in either mode, against a peer that echoes: in every world in
  which the session is established (the name resolves, the connection is made, the server
  name is set, the TLS handshake completes, the upgrade is accepted) and the write
  returns, the pipeline reads the payload back. Exactly one message is written, the
  payload; exactly one is read, equal to it; the exchange is one write, one read and the
  close. The witness runs both functions on \<open>Hello, world!\<close>.
\<close>

theorem echo_round_trip:
  assumes "echo_server w"
    and "resolve w host port = Returns results"
    and "connect w results = Returns ep"
    and "set_tlsext_host_name w (c_str host) \<noteq> 0"
    and "ssl_handshake w = Returns ()"
    and "\<not> failed (fst (ws_handshake w
           \<lparr>req_target = path,
            req_host = host @ '':'' @ to_string (unat (ep_port ep)),
            req_user_agent =
              Some (BOOST_BEAST_VERSION_STRING w @ '' websocket-client-coro'')\<rparr>))"
    and "ws_write w text = Returns ()"
  shows "(Ws_read, Message text) \<in> set (pipeline v w host port path text)
   \<and> written (pipeline v w host port path text) = [text]
   \<and> received (pipeline v w host port path text) = [text]
   \<and> exchange (pipeline v w host port path text) = [Ws_write text, Ws_read, Ws_close normal]
   \<and> (\<forall>r. (Ws_read, r) \<in> set (pipeline v w host port path text) \<longrightarrow> r = Message text)"
proof -
  let ?tr = "pipeline v w host port path text"
  from assms(1) have e: "ws_read w [text] = Returns text"
    by (simp add: echo_server_def)
  note reach = assms(2-5) assms(6) [simplified] assms(7) e
  have rd: "(Ws_read, Message text) \<in> set ?tr"
    by (simp add: pipeline_session session_def Let_def reach split: outcome.splits)
  have wr: "written ?tr = [text]"
    by (simp add: pipeline_session session_def Let_def reach split: outcome.splits)
  have rc: "received ?tr = [text]"
    by (simp add: pipeline_session session_def Let_def reach split: outcome.splits)
  have ex: "exchange ?tr = [Ws_write text, Ws_read, Ws_close normal]"
    by (simp add: pipeline_session session_def Let_def reach split: outcome.splits)
  have only: "\<forall>r. (Ws_read, r) \<in> set ?tr \<longrightarrow> r = Message text"
    by (auto simp add: pipeline_session session_def Let_def reach split: outcome.splits)
  from rd wr rc ex only show ?thesis
    by (intro conjI)
qed

theorem echo_round_trip_witness:
  "echo_server echo_world
   \<and> resolve echo_world ''example.com'' ''443'' = Returns [example_endpoint]
   \<and> connect echo_world [example_endpoint] = Returns example_endpoint
   \<and> set_tlsext_host_name echo_world (c_str ''example.com'') \<noteq> 0
   \<and> ssl_handshake echo_world = Returns ()
   \<and> \<not> failed (fst (ws_handshake echo_world
           \<lparr>req_target = ''/401'',
            req_host = ''example.com'' @ '':'' @ to_string (unat (ep_port example_endpoint)),
            req_user_agent =
              Some (BOOST_BEAST_VERSION_STRING echo_world @ '' websocket-client-coro'')\<rparr>))
   \<and> ws_write echo_world ''Hello, world!'' = Returns ()
   \<and> (Ws_read, Message ''Hello, world!'')
       \<in> set (pipeline Blocking echo_world ''example.com'' ''443'' ''/401'' ''Hello, world!'')
   \<and> received (pipeline Blocking echo_world ''example.com'' ''443'' ''/401''
        ''Hello, world!'') = [''Hello, world!'']
   \<and> (Ws_read, Message ''Hello, world!'')
       \<in> set (pipeline Cooperative echo_world ''example.com'' ''443'' ''/401''
                ''Hello, world!'')
   \<and> received (pipeline Cooperative echo_world ''example.com'' ''443'' ''/401''
        ''Hello, world!'') = [''Hello, world!'']"
proof -
  have s: "echo_server echo_world"
    by (simp add: echo_server_def echo_world_def)
  have r: "resolve echo_world ''example.com'' ''443'' = Returns [example_endpoint]"
    by (simp add: echo_world_def)
  have c: "connect echo_world [example_endpoint] = Returns example_endpoint"
    by (simp add: echo_world_def)
  have n: "set_tlsext_host_name echo_world (c_str ''example.com'') \<noteq> 0"
    by (simp add: echo_world_def)
  have t: "ssl_handshake echo_world = Returns ()"
    by (simp add: echo_world_def)
  have u: "\<not> failed (fst (ws_handshake echo_world
           \<lparr>req_target = ''/401'',
            req_host = ''example.com'' @ '':'' @ to_string (unat (ep_port example_endpoint)),
            req_user_agent =
              Some (BOOST_BEAST_VERSION_STRING echo_world @ '' websocket-client-coro'')\<rparr>))"
    by (simp add: echo_world_def failed_def)
  have x: "ws_write echo_world ''Hello, world!'' = Returns ()"
    by (simp add: echo_world_def)
  note sync = echo_round_trip [OF s r c n t u x, of Blocking]
  note async = echo_round_trip [OF s r c n t u x, of Cooperative]
  from sync have s1: "(Ws_read, Message ''Hello, world!'')
      \<in> set (pipeline Blocking echo_world ''example.com'' ''443'' ''/401'' ''Hello, world!'')"
    by (rule conjunct1)
  from sync have s2: "received (pipeline Blocking echo_world ''example.com'' ''443'' ''/401''
      ''Hello, world!'') = [''Hello, world!'']"
    by blast
  from async have a1: "(Ws_read, Message ''Hello, world!'')
      \<in> set (pipeline Cooperative echo_world ''example.com'' ''443'' ''/401''
               ''Hello, world!'')"
    by (rule conjunct1)
  from async have a2: "received (pipeline Cooperative echo_world ''example.com'' ''443''
      ''/401'' ''Hello, world!'') = [''Hello, world!'']"
    by blast
  from s r c n t u x s1 s2 a1 a2 show ?thesis
    by (intro conjI)
qed

text \<open>
  C10. Once a message has been read, the rest of the run is the close and one line: the
  message if the close completed, the error line if the close threw. So the message is
  printed only after a completed close, and when the close throws the message read is
  not printed at all: besides the two lines reporting the upgrade there is one more line
  in either case.
\<close>

theorem message_printed_only_after_close:
  assumes "(Ws_read, Message buffer) \<in> set (pipeline v w host port path text)"
  shows "from_call Ws_read (pipeline v w host port path text) =
           (case ws_close w normal of
              Returns u \<Rightarrow>
                [(Ws_read, Message buffer), (Ws_close normal, Done),
                 (Println (tag v @ buffer), Done)]
            | Throws e \<Rightarrow>
                [(Ws_read, Message buffer), (Ws_close normal, Raised e),
                 (Println (tag v @ ''Error: '' @ what e), Done)])
   \<and> length (printed (pipeline v w host port path text)) = 3"
  using assms
  by (auto simp add: pipeline_session session_def Let_def from_call_def
      split: outcome.splits if_splits)

theorem message_printed_only_after_close_witness:
  "(Ws_read, Message ''Hello, world!'')
     \<in> set (pipeline Cooperative close_fails_world ''example.com'' ''443'' ''/401''
              ''Hello, world!'')
   \<and> from_call Ws_read (pipeline Cooperative close_fails_world ''example.com'' ''443''
        ''/401'' ''Hello, world!'') =
       [(Ws_read, Message ''Hello, world!''),
        (Ws_close normal, Raised (Std_exception ''Connection reset by peer'')),
        (Println ''[async] Error: Connection reset by peer'', Done)]"
proof -
  let ?tr = "pipeline Cooperative close_fails_world ''example.com'' ''443'' ''/401''
               ''Hello, world!''"
  have r: "(Ws_read, Message ''Hello, world!'') \<in> set ?tr"
    by (simp add: close_fails_world_run)
  have c: "ws_close close_fails_world normal =
             Throws (Std_exception ''Connection reset by peer'')"
    by (simp add: close_fails_world_def)
  from message_printed_only_after_close [OF r]
  have "from_call Ws_read ?tr =
          [(Ws_read, Message ''Hello, world!''),
           (Ws_close normal, Raised (Std_exception ''Connection reset by peer'')),
           (Println (tag Cooperative @ ''Error: '' @
              what (Std_exception ''Connection reset by peer'')), Done)]"
    by (simp add: c)
  then show ?thesis
    using r by simp
qed

end
